theory Spec2Isabelle
  imports Main "HOL-Library.Char_ord" "HOL-Library.Word"
begin

section \<open>Python values, exceptions and strings\<close>

text \<open>
  The behaviour-flag setters test their argument with \<^verbatim>\<open>isinstance\<close>, so their argument
  is a dynamically typed Python value. \<^verbatim>\<open>isinstance(v, bool)\<close> holds of \<open>PyBool\<close> only
  (an \<^verbatim>\<open>int\<close> is not a \<^verbatim>\<open>bool\<close>), \<^verbatim>\<open>isinstance(v, str)\<close> of \<open>PyStr\<close> only.
\<close>

datatype pyval = PyNone | PyBool bool | PyInt int | PyStr string

datatype error = ValueError string

text \<open>
  Python mutates the widget in place, so whatever was assigned before a \<^verbatim>\<open>raise\<close> stays
  assigned. A call that raises returns \<open>Inl\<close> of the exception and of the widget as the call
  left it; a call that returns gives \<open>Inr\<close> of the updated widget.
\<close>

type_synonym 'w result = "(error \<times> 'w) + 'w"

text \<open>
  \<^verbatim>\<open>str.lower()\<close>. A string is a list of bytes here: the ASCII capitals move down by 32
  and every other byte stays. The only code point beyond ASCII that Python lowers to an
  ASCII letter alone is the Kelvin sign (to \<^verbatim>\<open>k\<close>), and no accepted word of the setters
  below has a \<^verbatim>\<open>k\<close>, so both agree on which strings lower to an accepted word.
\<close>

definition lower_char :: "char \<Rightarrow> char" where
  "lower_char c =
     (if CHR ''A'' \<le> c \<and> c \<le> CHR ''Z'' then char_of (of_char c + (32::nat)) else c)"

definition lower :: "string \<Rightarrow> string" where
  "lower s = map lower_char s"


text \<open>
  A native string property read through the bridge is a string or \<^verbatim>\<open>None\<close>:
  \<^verbatim>\<open>str(None)\<close> is the four letters \<^verbatim>\<open>None\<close>, and \<^verbatim>\<open>None\<close> and the empty string are
  false in a condition.
\<close>

definition py_str :: "string option \<Rightarrow> string" where
  "py_str x = (case x of None \<Rightarrow> ''None'' | Some s \<Rightarrow> s)"

definition truthy :: "string option \<Rightarrow> bool" where
  "truthy x = (case x of None \<Rightarrow> False | Some s \<Rightarrow> s \<noteq> [])"

section \<open>Constants of the toolkit and of UIKit\<close>

text \<open>The alignment values of \<^verbatim>\<open>toga.constants\<close> that a text alignment can take.\<close>

datatype alignment = LEFT | RIGHT | CENTER | JUSTIFY

text \<open>
  \<^verbatim>\<open>NSTextAlignment(value)\<close> of \<^verbatim>\<open>toga_iOS.libs\<close> converts an alignment into the native
  constant. It lives outside these two files and is kept uninterpreted: a constructor, so
  different alignments give different native constants. \<open>NSTextAlignmentNatural\<close> is what a
  fresh control has before any alignment is set.
\<close>

datatype ns_text_alignment = NSTextAlignment alignment | NSTextAlignmentNatural

datatype UITextAutocorrectionType =
  UITextAutocorrectionType_Default | UITextAutocorrectionType_No | UITextAutocorrectionType_Yes

datatype UITextSpellCheckingType =
  UITextSpellCheckingType_Default | UITextSpellCheckingType_No | UITextSpellCheckingType_Yes

datatype UITextAutocapitalizationType =
  UITextAutocapitalizationType_none | UITextAutocapitalizationType_Words
  | UITextAutocapitalizationType_Sentences | UITextAutocapitalizationType_AllCharacters

datatype UITextInlinePredictionType =
  UITextInlinePredictionType_Default | UITextInlinePredictionType_No
  | UITextInlinePredictionType_Yes

text \<open>
  \<^verbatim>\<open>NSRange\<close> of \<^verbatim>\<open>rubicon.objc\<close> is a structure of two \<^verbatim>\<open>NSUInteger\<close> fields, location
  and length: unsigned and 64 bits wide on iOS. \<^verbatim>\<open>NSRange(location, length)\<close> stores each
  Python integer modulo \<open>2 ^ 64\<close> and raises nothing, so \<open>-1\<close> is stored as \<open>2 ^ 64 - 1\<close>.
\<close>

record ns_range =
  location :: "64 word"
  range_length :: "64 word"

definition NSRange :: "int \<Rightarrow> int \<Rightarrow> ns_range" where
  "NSRange l n = \<lparr> location = word_of_int l, range_length = word_of_int n \<rparr>"

section \<open>The widgets as state\<close>

text \<open>
  The state holds the properties that the adapters' methods read back or that a property
  below speaks of. Colours, fonts, layout constraints and size hints are written by
  \<^verbatim>\<open>set_color\<close>, \<^verbatim>\<open>set_font\<close>, \<^verbatim>\<open>add_constraints\<close> and \<^verbatim>\<open>rehint\<close> and read by
  none of the methods embedded here, so they are left out.

  The calls an adapter makes on its interface are recorded in the order they happen;
  \<open>value_changed\<close> is the interface's \<^verbatim>\<open>_value_changed\<close> hook.
\<close>

datatype callback = on_gain_focus | on_lose_focus | on_confirm | on_change | value_changed

record UILabel =
  label_text :: "string option"
  hidden :: bool
  label_textAlignment :: ns_text_alignment

text \<open>The properties that both native text controls have.\<close>

record UITextControl =
  "text" :: string
  textAlignment :: ns_text_alignment
  autocorrectionType :: UITextAutocorrectionType
  spellCheckingType :: UITextSpellCheckingType
  autocapitalizationType :: UITextAutocapitalizationType
  inlinePredictionType :: UITextInlinePredictionType

record TogaTextField = UITextControl +
  placeholder :: "string option"
  enabled :: bool

text \<open>\<open>scrolled\<close> records the ranges passed to \<^verbatim>\<open>scrollRangeToVisible\<close>, oldest first.\<close>

record TogaMultilineTextView = UITextControl +
  editable :: bool
  scrolled :: "ns_range list"

text \<open>
  Modelled from the spec: the base class \<^verbatim>\<open>Widget\<close> of \<^verbatim>\<open>toga_iOS.widgets.base\<close> is
  not among the source files. It holds the native control and the interface, and the
  focus flag \<^verbatim>\<open>has_focus\<close> that \<^verbatim>\<open>MultilineTextInput.set_value\<close> reads, which the spec
  calls an externally tracked flag.
\<close>

record 'n Widget =
  native :: 'n
  interface :: "callback list"
  has_focus :: bool

record TextInput = "TogaTextField Widget" +
  error_label :: UILabel

text \<open>
  \<^verbatim>\<open>create\<close> hands the placeholder label to the native view as well
  (\<^verbatim>\<open>self.native.placeholder_label = self.placeholder_label\<close>): both names denote one label,
  so the delegate methods below work on the adapter's field.
\<close>

record MultilineTextInput = "TogaMultilineTextView Widget" +
  placeholder_label :: UILabel

section \<open>The single-line adapter\<close>

text \<open>
  UIKit's \<^verbatim>\<open>placeholder\<close> setter, as the comment in \<^verbatim>\<open>get_placeholder\<close> describes it:
  it transparently converts the empty string into \<^verbatim>\<open>None\<close>.
\<close>

definition UITextField_placeholder :: "string \<Rightarrow> string option" where
  "UITextField_placeholder v = (if v = [] then None else Some v)"

text \<open>
  A new text field and its error label: \<^verbatim>\<open>create\<close> sets autocorrection and spell checking
  to \<^verbatim>\<open>Yes\<close> and \<^verbatim>\<open>add_error_label\<close> hides the label and gives it the warning sign
  (U+26A0, three bytes of UTF-8); every other property has its UIKit default.
\<close>

definition TextInput_create :: TextInput where
  "TextInput_create =
     \<lparr> native =
         \<lparr> text = [], textAlignment = NSTextAlignmentNatural,
           autocorrectionType = UITextAutocorrectionType_Yes,
           spellCheckingType = UITextSpellCheckingType_Yes,
           autocapitalizationType = UITextAutocapitalizationType_Sentences,
           inlinePredictionType = UITextInlinePredictionType_Default,
           placeholder = None, enabled = True \<rparr>,
       interface = [], has_focus = False,
       error_label =
         \<lparr> label_text = Some [CHR 0xE2, CHR 0x9A, CHR 0xA0], hidden = True,
           label_textAlignment = NSTextAlignmentNatural \<rparr> \<rparr>"

definition textFieldDidBeginEditing :: "TextInput \<Rightarrow> TextInput" where
  "textFieldDidBeginEditing w = w\<lparr>interface := interface w @ [on_gain_focus]\<rparr>"

definition textFieldDidChange :: "TextInput \<Rightarrow> TextInput" where
  "textFieldDidChange w = w\<lparr>interface := interface w @ [value_changed]\<rparr>"

definition textFieldDidEndEditing :: "TextInput \<Rightarrow> TextInput" where
  "textFieldDidEndEditing w = w\<lparr>interface := interface w @ [on_lose_focus]\<rparr>"

text \<open>The callback's return value comes with the widget after the call.\<close>

definition textFieldShouldReturn :: "TextInput \<Rightarrow> bool \<times> TextInput" where
  "textFieldShouldReturn w = (True, w\<lparr>interface := interface w @ [on_confirm]\<rparr>)"

definition TextInput_get_readonly :: "TextInput \<Rightarrow> bool" where
  "TextInput_get_readonly w = (\<not> enabled (native w))"

definition TextInput_set_readonly :: "bool \<Rightarrow> TextInput \<Rightarrow> TextInput" where
  "TextInput_set_readonly v w = w\<lparr>native := (native w)\<lparr>enabled := \<not> v\<rparr>\<rparr>"

definition TextInput_get_placeholder :: "TextInput \<Rightarrow> string" where
  "TextInput_get_placeholder w =
     py_str (if truthy (placeholder (native w)) then placeholder (native w) else Some [])"

definition TextInput_set_placeholder :: "string \<Rightarrow> TextInput \<Rightarrow> TextInput" where
  "TextInput_set_placeholder v w =
     w\<lparr>native := (native w)\<lparr>placeholder := UITextField_placeholder v\<rparr>\<rparr>"

definition TextInput_get_value :: "TextInput \<Rightarrow> string" where
  "TextInput_get_value w = text (native w)"

definition TextInput_set_value :: "string \<Rightarrow> TextInput \<Rightarrow> TextInput" where
  "TextInput_set_value v w =
     w\<lparr>native := (native w)\<lparr>text := v\<rparr>, interface := interface w @ [value_changed]\<rparr>"

definition TextInput_set_text_align :: "alignment \<Rightarrow> TextInput \<Rightarrow> TextInput" where
  "TextInput_set_text_align v w =
     (let w1 = w\<lparr>native := (native w)\<lparr>textAlignment := NSTextAlignment v\<rparr>\<rparr>
      in if v = RIGHT
         then w1\<lparr>error_label := (error_label w1)\<lparr>label_textAlignment := NSTextAlignment LEFT\<rparr>\<rparr>
         else w1\<lparr>error_label := (error_label w1)\<lparr>label_textAlignment := NSTextAlignment RIGHT\<rparr>\<rparr>)"

text \<open>The error message is an argument that the body never reads.\<close>

definition TextInput_set_error :: "string \<Rightarrow> TextInput \<Rightarrow> TextInput" where
  "TextInput_set_error error_message w = w\<lparr>error_label := (error_label w)\<lparr>hidden := False\<rparr>\<rparr>"

definition TextInput_clear_error :: "TextInput \<Rightarrow> TextInput" where
  "TextInput_clear_error w = w\<lparr>error_label := (error_label w)\<lparr>hidden := True\<rparr>\<rparr>"

definition TextInput_is_valid :: "TextInput \<Rightarrow> bool" where
  "TextInput_is_valid w = hidden (error_label w)"

definition TextInput_set_autocorrect :: "pyval \<Rightarrow> TextInput \<Rightarrow> TextInput result" where
  "TextInput_set_autocorrect v w =
     (case v of
        PyBool b \<Rightarrow>
          if b then Inr (w\<lparr>native := (native w)\<lparr>autocorrectionType := UITextAutocorrectionType_Yes\<rparr>\<rparr>)
          else Inr (w\<lparr>native := (native w)\<lparr>autocorrectionType := UITextAutocorrectionType_No\<rparr>\<rparr>)
      | _ \<Rightarrow> Inl (ValueError ''value can only be a boolean'', w))"

definition TextInput_get_autocorrect :: "TextInput \<Rightarrow> bool" where
  "TextInput_get_autocorrect w =
     (if autocorrectionType (native w) = UITextAutocorrectionType_Yes then True else False)"

definition TextInput_set_spellchecker :: "pyval \<Rightarrow> TextInput \<Rightarrow> TextInput result" where
  "TextInput_set_spellchecker v w =
     (case v of
        PyBool b \<Rightarrow>
          if b then Inr (w\<lparr>native := (native w)\<lparr>spellCheckingType := UITextSpellCheckingType_Yes\<rparr>\<rparr>)
          else Inr (w\<lparr>native := (native w)\<lparr>spellCheckingType := UITextSpellCheckingType_No\<rparr>\<rparr>)
      | _ \<Rightarrow> Inl (ValueError ''value can only be a boolean'', w))"

definition TextInput_get_spellchecker :: "TextInput \<Rightarrow> bool" where
  "TextInput_get_spellchecker w =
     (if spellCheckingType (native w) = UITextSpellCheckingType_Yes then True else False)"

definition autocapitalization_message :: string where
  \<open>autocapitalization_message =
     ''value can only be "none", "words", "sentences" or "allcharacters"''\<close>

definition TextInput_set_autocapitalization_type ::
  "pyval \<Rightarrow> TextInput \<Rightarrow> TextInput result" where
  "TextInput_set_autocapitalization_type v w =
     (case v of
        PyStr s \<Rightarrow>
          if lower s = ''none'' then
            Inr (w\<lparr>native := (native w)\<lparr>autocapitalizationType :=
                   UITextAutocapitalizationType_none\<rparr>\<rparr>)
          else if lower s = ''words'' then
            Inr (w\<lparr>native := (native w)\<lparr>autocapitalizationType :=
                   UITextAutocapitalizationType_Words\<rparr>\<rparr>)
          else if lower s = ''sentences'' then
            Inr (w\<lparr>native := (native w)\<lparr>autocapitalizationType :=
                   UITextAutocapitalizationType_Sentences\<rparr>\<rparr>)
          else if lower s = ''allcharacters'' then
            Inr (w\<lparr>native := (native w)\<lparr>autocapitalizationType :=
                   UITextAutocapitalizationType_AllCharacters\<rparr>\<rparr>)
          else Inl (ValueError autocapitalization_message, w)
      | _ \<Rightarrow> Inl (ValueError autocapitalization_message, w))"

definition inlineprediction_message :: string where
  \<open>inlineprediction_message = ''value can only be "Yes", "No" or "Default"''\<close>

definition TextInput_set_inlineprediction_type ::
  "pyval \<Rightarrow> TextInput \<Rightarrow> TextInput result" where
  "TextInput_set_inlineprediction_type v w =
     (case v of
        PyStr s \<Rightarrow>
          if lower s = ''yes'' then
            Inr (w\<lparr>native := (native w)\<lparr>inlinePredictionType :=
                   UITextInlinePredictionType_Yes\<rparr>\<rparr>)
          else if lower s = ''no'' then
            Inr (w\<lparr>native := (native w)\<lparr>inlinePredictionType :=
                   UITextInlinePredictionType_No\<rparr>\<rparr>)
          else if lower s = ''default'' then
            Inr (w\<lparr>native := (native w)\<lparr>inlinePredictionType :=
                   UITextInlinePredictionType_Default\<rparr>\<rparr>)
          else Inl (ValueError inlineprediction_message, w)
      | _ \<Rightarrow> Inl (ValueError inlineprediction_message, w))"

section \<open>The multi-line adapter\<close>

text \<open>
  A new text view and its placeholder label. \<^verbatim>\<open>create\<close> sets autocorrection and spell
  checking to \<^verbatim>\<open>Yes\<close> and assigns neither the label's text nor its hidden flag, so the
  label has its UIKit defaults: no text and not hidden. The view starts with no text and
  without focus.
\<close>

definition MultilineTextInput_create :: MultilineTextInput where
  "MultilineTextInput_create =
     \<lparr> native =
         \<lparr> text = [], textAlignment = NSTextAlignmentNatural,
           autocorrectionType = UITextAutocorrectionType_Yes,
           spellCheckingType = UITextSpellCheckingType_Yes,
           autocapitalizationType = UITextAutocapitalizationType_Sentences,
           inlinePredictionType = UITextInlinePredictionType_Default,
           editable = True, scrolled = [] \<rparr>,
       interface = [], has_focus = False,
       placeholder_label =
         \<lparr> label_text = None, hidden = False,
           label_textAlignment = NSTextAlignmentNatural \<rparr> \<rparr>"

definition textViewDidBeginEditing :: "MultilineTextInput \<Rightarrow> MultilineTextInput" where
  "textViewDidBeginEditing w = w\<lparr>placeholder_label := (placeholder_label w)\<lparr>hidden := True\<rparr>\<rparr>"

text \<open>The text view passed to the delegate is the adapter's own native view.\<close>

definition textViewDidEndEditing :: "MultilineTextInput \<Rightarrow> MultilineTextInput" where
  "textViewDidEndEditing w =
     w\<lparr>placeholder_label := (placeholder_label w)\<lparr>hidden := (length (text (native w)) > 0)\<rparr>\<rparr>"

definition textViewDidChange :: "MultilineTextInput \<Rightarrow> MultilineTextInput" where
  "textViewDidChange w = w\<lparr>interface := interface w @ [on_change]\<rparr>"

definition MultilineTextInput_get_placeholder :: "MultilineTextInput \<Rightarrow> string" where
  "MultilineTextInput_get_placeholder w = py_str (label_text (placeholder_label w))"

definition MultilineTextInput_set_placeholder ::
  "string \<Rightarrow> MultilineTextInput \<Rightarrow> MultilineTextInput" where
  "MultilineTextInput_set_placeholder v w =
     w\<lparr>placeholder_label := (placeholder_label w)\<lparr>label_text := Some v\<rparr>\<rparr>"

definition MultilineTextInput_get_readonly :: "MultilineTextInput \<Rightarrow> bool" where
  "MultilineTextInput_get_readonly w = (\<not> editable (native w))"

definition MultilineTextInput_set_readonly ::
  "bool \<Rightarrow> MultilineTextInput \<Rightarrow> MultilineTextInput" where
  "MultilineTextInput_set_readonly v w = w\<lparr>native := (native w)\<lparr>editable := \<not> v\<rparr>\<rparr>"

definition MultilineTextInput_get_value :: "MultilineTextInput \<Rightarrow> string" where
  "MultilineTextInput_get_value w = text (native w)"

definition MultilineTextInput_set_value ::
  "string \<Rightarrow> MultilineTextInput \<Rightarrow> MultilineTextInput" where
  "MultilineTextInput_set_value v w =
     (let w1 = w\<lparr>native := (native w)\<lparr>text := v\<rparr>\<rparr>;
          w2 = w1\<lparr>placeholder_label := (placeholder_label w1)
                 \<lparr>hidden := (has_focus w1 \<or> length (text (native w1)) > 0)\<rparr>\<rparr>
      in w2\<lparr>interface := interface w2 @ [on_change]\<rparr>)"

definition MultilineTextInput_set_text_align ::
  "alignment \<Rightarrow> MultilineTextInput \<Rightarrow> MultilineTextInput" where
  "MultilineTextInput_set_text_align v w =
     w\<lparr>native := (native w)\<lparr>textAlignment := NSTextAlignment v\<rparr>\<rparr>"


definition MultilineTextInput_scroll_to_top :: "MultilineTextInput \<Rightarrow> MultilineTextInput" where
  "MultilineTextInput_scroll_to_top w =
     w\<lparr>native := (native w)\<lparr>scrolled := scrolled (native w) @ [NSRange 0 0]\<rparr>\<rparr>"

definition MultilineTextInput_set_autocorrect ::
  "pyval \<Rightarrow> MultilineTextInput \<Rightarrow> MultilineTextInput result" where
  "MultilineTextInput_set_autocorrect v w =
     (case v of
        PyBool b \<Rightarrow>
          if b then Inr (w\<lparr>native := (native w)\<lparr>autocorrectionType := UITextAutocorrectionType_Yes\<rparr>\<rparr>)
          else Inr (w\<lparr>native := (native w)\<lparr>autocorrectionType := UITextAutocorrectionType_No\<rparr>\<rparr>)
      | _ \<Rightarrow> Inl (ValueError ''value can only be a boolean'', w))"

definition MultilineTextInput_get_autocorrect :: "MultilineTextInput \<Rightarrow> bool" where
  "MultilineTextInput_get_autocorrect w =
     (if autocorrectionType (native w) = UITextAutocorrectionType_Yes then True else False)"

definition MultilineTextInput_set_spellchecker ::
  "pyval \<Rightarrow> MultilineTextInput \<Rightarrow> MultilineTextInput result" where
  "MultilineTextInput_set_spellchecker v w =
     (case v of
        PyBool b \<Rightarrow>
          if b then Inr (w\<lparr>native := (native w)\<lparr>spellCheckingType := UITextSpellCheckingType_Yes\<rparr>\<rparr>)
          else Inr (w\<lparr>native := (native w)\<lparr>spellCheckingType := UITextSpellCheckingType_No\<rparr>\<rparr>)
      | _ \<Rightarrow> Inl (ValueError ''value can only be a boolean'', w))"

definition MultilineTextInput_get_spellchecker :: "MultilineTextInput \<Rightarrow> bool" where
  "MultilineTextInput_get_spellchecker w =
     (if spellCheckingType (native w) = UITextSpellCheckingType_Yes then True else False)"

definition MultilineTextInput_set_autocapitalization_type ::
  "pyval \<Rightarrow> MultilineTextInput \<Rightarrow> MultilineTextInput result" where
  "MultilineTextInput_set_autocapitalization_type v w =
     (case v of
        PyStr s \<Rightarrow>
          if lower s = ''none'' then
            Inr (w\<lparr>native := (native w)\<lparr>autocapitalizationType :=
                   UITextAutocapitalizationType_none\<rparr>\<rparr>)
          else if lower s = ''words'' then
            Inr (w\<lparr>native := (native w)\<lparr>autocapitalizationType :=
                   UITextAutocapitalizationType_Words\<rparr>\<rparr>)
          else if lower s = ''sentences'' then
            Inr (w\<lparr>native := (native w)\<lparr>autocapitalizationType :=
                   UITextAutocapitalizationType_Sentences\<rparr>\<rparr>)
          else if lower s = ''allcharacters'' then
            Inr (w\<lparr>native := (native w)\<lparr>autocapitalizationType :=
                   UITextAutocapitalizationType_AllCharacters\<rparr>\<rparr>)
          else Inl (ValueError autocapitalization_message, w)
      | _ \<Rightarrow> Inl (ValueError autocapitalization_message, w))"

definition MultilineTextInput_set_inlineprediction_type ::
  "pyval \<Rightarrow> MultilineTextInput \<Rightarrow> MultilineTextInput result" where
  "MultilineTextInput_set_inlineprediction_type v w =
     (case v of
        PyStr s \<Rightarrow>
          if lower s = ''yes'' then
            Inr (w\<lparr>native := (native w)\<lparr>inlinePredictionType :=
                   UITextInlinePredictionType_Yes\<rparr>\<rparr>)
          else if lower s = ''no'' then
            Inr (w\<lparr>native := (native w)\<lparr>inlinePredictionType :=
                   UITextInlinePredictionType_No\<rparr>\<rparr>)
          else if lower s = ''default'' then
            Inr (w\<lparr>native := (native w)\<lparr>inlinePredictionType :=
                   UITextInlinePredictionType_Default\<rparr>\<rparr>)
          else Inl (ValueError inlineprediction_message, w)
      | _ \<Rightarrow> Inl (ValueError inlineprediction_message, w))"

section \<open>Focus changes of the multi-line view\<close>

text \<open>
  Modelled from the spec: the focus flag is kept outside the two source files, and UIKit
  calls the delegate when the view gains or loses focus (the spec: the placeholder is
  hidden on focus-gain and recomputed on focus-loss). A focus change is the flag's change
  followed by the delegate method that UIKit then calls.
\<close>

definition gain_focus :: "MultilineTextInput \<Rightarrow> MultilineTextInput" where
  "gain_focus w = textViewDidBeginEditing (w\<lparr>has_focus := True\<rparr>)"

definition lose_focus :: "MultilineTextInput \<Rightarrow> MultilineTextInput" where
  "lose_focus w = textViewDidEndEditing (w\<lparr>has_focus := False\<rparr>)"

datatype event = BeginEditing | EndEditing | SetValue string

fun step :: "event \<Rightarrow> MultilineTextInput \<Rightarrow> MultilineTextInput" where
  "step BeginEditing w = gain_focus w"
| "step EndEditing w = lose_focus w"
| "step (SetValue v) w = MultilineTextInput_set_value v w"

fun run :: "event list \<Rightarrow> MultilineTextInput \<Rightarrow> MultilineTextInput" where
  "run [] w = w"
| "run (e # es) w = run es (step e w)"

definition placeholder_visible :: "MultilineTextInput \<Rightarrow> bool" where
  "placeholder_visible w = (\<not> hidden (placeholder_label w))"

section \<open>Properties of the single-line adapter\<close>

text \<open>
  C6: on the single-line adapter, whatever the message (the empty string too), the widget
  is not valid after \<open>set_error\<close> and is valid after \<open>clear_error\<close>, and the message leaves
  no trace: two calls of \<open>set_error\<close> with different messages give the same state.
\<close>

theorem set_error_is_valid:
  "TextInput_is_valid (TextInput_set_error m w) = False
   \<and> TextInput_is_valid (TextInput_set_error [] w) = False
   \<and> TextInput_is_valid (TextInput_clear_error w) = True
   \<and> TextInput_is_valid (TextInput_clear_error (TextInput_set_error m w)) = True
   \<and> TextInput_set_error m w = TextInput_set_error m' w"
  by (simp add: TextInput_is_valid_def TextInput_set_error_def TextInput_clear_error_def)

text \<open>
  C7: on the single-line adapter, \<open>get_placeholder\<close> after \<open>set_placeholder\<close> of the empty
  string returns the empty string. The getter turns an absent placeholder into the empty
  string, so this holds whether the native control stores the empty string or nothing.
\<close>

theorem set_placeholder_empty_roundtrip:
  "TextInput_get_placeholder (TextInput_set_placeholder [] w) = []
   \<and> TextInput_get_placeholder (w\<lparr>native := (native w)\<lparr>placeholder := None\<rparr>\<rparr>) = []
   \<and> TextInput_get_placeholder (w\<lparr>native := (native w)\<lparr>placeholder := Some []\<rparr>\<rparr>) = []"
  by (simp add: TextInput_get_placeholder_def TextInput_set_placeholder_def
      UITextField_placeholder_def truthy_def py_str_def)

text \<open>
  C8: on the single-line adapter, the return-key callback calls the interface's
  \<open>on_confirm\<close> once, changes nothing else, and always answers that the key was handled.
\<close>

theorem textFieldShouldReturn_confirms:
  "fst (textFieldShouldReturn w) = True
   \<and> interface (snd (textFieldShouldReturn w)) = interface w @ [on_confirm]
   \<and> snd (textFieldShouldReturn w) = w\<lparr>interface := interface w @ [on_confirm]\<rparr>"
  by (simp add: textFieldShouldReturn_def)

text \<open>
  C3: on the single-line adapter, after \<open>set_text_align\<close> the error label is aligned LEFT
  when the text is aligned RIGHT, and RIGHT for each of the other alignment values; the
  native control itself takes the alignment asked for.
\<close>

theorem set_text_align_error_label:
  "label_textAlignment (error_label (TextInput_set_text_align a w))
     = (if a = RIGHT then NSTextAlignment LEFT else NSTextAlignment RIGHT)
   \<and> textAlignment (native (TextInput_set_text_align a w)) = NSTextAlignment a"
  by (simp add: TextInput_set_text_align_def)

theorem set_text_align_error_label_witness:
  "label_textAlignment (error_label (TextInput_set_text_align RIGHT TextInput_create))
     = NSTextAlignment LEFT
   \<and> label_textAlignment (error_label (TextInput_set_text_align LEFT TextInput_create))
     = NSTextAlignment RIGHT
   \<and> label_textAlignment (error_label (TextInput_set_text_align CENTER TextInput_create))
     = NSTextAlignment RIGHT
   \<and> label_textAlignment (error_label (TextInput_set_text_align JUSTIFY TextInput_create))
     = NSTextAlignment RIGHT"
  using set_text_align_error_label [of RIGHT TextInput_create]
    set_text_align_error_label [of LEFT TextInput_create]
    set_text_align_error_label [of CENTER TextInput_create]
    set_text_align_error_label [of JUSTIFY TextInput_create]
  by simp

section \<open>Properties of both adapters\<close>

text \<open>
  C2: for every string, \<open>set_value\<close> adds exactly one call to those the interface has
  received (its value-changed hook on the single-line adapter, \<open>on_change\<close> on the
  multi-line adapter), and \<open>get_value\<close> then returns that string.
\<close>

theorem set_value_notifies_once:
  "interface (TextInput_set_value s w) = interface w @ [value_changed]
   \<and> length (interface (TextInput_set_value s w)) = length (interface w) + 1
   \<and> TextInput_get_value (TextInput_set_value s w) = s
   \<and> interface (MultilineTextInput_set_value s m) = interface m @ [on_change]
   \<and> length (interface (MultilineTextInput_set_value s m)) = length (interface m) + 1
   \<and> MultilineTextInput_get_value (MultilineTextInput_set_value s m) = s"
  by (simp add: TextInput_set_value_def TextInput_get_value_def
      MultilineTextInput_set_value_def MultilineTextInput_get_value_def)

theorem set_value_notifies_once_witness:
  "interface (TextInput_set_value ''hello'' TextInput_create) = [value_changed]
   \<and> TextInput_get_value (TextInput_set_value ''hello'' TextInput_create) = ''hello''
   \<and> interface (MultilineTextInput_set_value ''hello'' MultilineTextInput_create) = [on_change]
   \<and> MultilineTextInput_get_value
        (MultilineTextInput_set_value ''hello'' MultilineTextInput_create) = ''hello''"
  using set_value_notifies_once [of "''hello''" TextInput_create MultilineTextInput_create]
  by (simp add: TextInput_create_def MultilineTextInput_create_def)

text \<open>
  The setter of the capitalisation type, written as one case distinction on whether the
  argument is a string that lowers to an accepted word.
\<close>

lemma TextInput_autocap_cases:
  "TextInput_set_autocapitalization_type v w =
     (if \<exists>s. v = PyStr s \<and> lower s \<in> {''none'', ''words'', ''sentences'', ''allcharacters''}
      then Inr (w\<lparr>native := (native w)\<lparr>autocapitalizationType :=
             (case v of PyStr s \<Rightarrow>
                if lower s = ''none'' then UITextAutocapitalizationType_none
                else if lower s = ''words'' then UITextAutocapitalizationType_Words
                else if lower s = ''sentences'' then UITextAutocapitalizationType_Sentences
                else UITextAutocapitalizationType_AllCharacters
              | _ \<Rightarrow> autocapitalizationType (native w))\<rparr>\<rparr>)
      else Inl (ValueError autocapitalization_message, w))"
  by (cases v) (simp_all add: TextInput_set_autocapitalization_type_def)

lemma MultilineTextInput_autocap_cases:
  "MultilineTextInput_set_autocapitalization_type v w =
     (if \<exists>s. v = PyStr s \<and> lower s \<in> {''none'', ''words'', ''sentences'', ''allcharacters''}
      then Inr (w\<lparr>native := (native w)\<lparr>autocapitalizationType :=
             (case v of PyStr s \<Rightarrow>
                if lower s = ''none'' then UITextAutocapitalizationType_none
                else if lower s = ''words'' then UITextAutocapitalizationType_Words
                else if lower s = ''sentences'' then UITextAutocapitalizationType_Sentences
                else UITextAutocapitalizationType_AllCharacters
              | _ \<Rightarrow> autocapitalizationType (native w))\<rparr>\<rparr>)
      else Inl (ValueError autocapitalization_message, w))"
  by (cases v) (simp_all add: MultilineTextInput_set_autocapitalization_type_def)

lemma lower_examples:
  "lower ''Words'' = ''words''" "lower ''NONE'' = ''none''" "lower ''title'' = ''title''"
  "lower ''sentences'' = ''sentences''" "lower ''AllCharacters'' = ''allcharacters''"
  by code_simp+

text \<open>
  C4: on either adapter, \<open>set_autocapitalization_type\<close> returns exactly when its argument
  is a string whose lower-case form is one of the four accepted words. On any other string
  and on any value that is not a string it raises \<open>ValueError\<close> with the message that
  lists the four words, and the widget is as it was before the call.
\<close>

theorem set_autocapitalization_type_domain:
  \<open>((\<exists>w'. TextInput_set_autocapitalization_type v w = Inr w')
      = (\<exists>s. v = PyStr s \<and> lower s \<in> {''none'', ''words'', ''sentences'', ''allcharacters''}))
   \<and> ((\<exists>m'. MultilineTextInput_set_autocapitalization_type v m = Inr m')
      = (\<exists>s. v = PyStr s \<and> lower s \<in> {''none'', ''words'', ''sentences'', ''allcharacters''}))
   \<and> (\<not> (\<exists>s. v = PyStr s \<and> lower s \<in> {''none'', ''words'', ''sentences'', ''allcharacters''})
      \<longrightarrow> TextInput_set_autocapitalization_type v w
            = Inl (ValueError
                ''value can only be "none", "words", "sentences" or "allcharacters"'', w)
          \<and> MultilineTextInput_set_autocapitalization_type v m
            = Inl (ValueError
                ''value can only be "none", "words", "sentences" or "allcharacters"'', m))\<close>
  unfolding TextInput_autocap_cases MultilineTextInput_autocap_cases
    autocapitalization_message_def
  by simp

theorem set_autocapitalization_type_domain_witness:
  \<open>(\<exists>w'. TextInput_set_autocapitalization_type (PyStr ''Words'') TextInput_create = Inr w')
   \<and> (\<exists>m'. MultilineTextInput_set_autocapitalization_type (PyStr ''NONE'')
           MultilineTextInput_create = Inr m')
   \<and> TextInput_set_autocapitalization_type (PyStr ''title'') TextInput_create
       = Inl (ValueError
           ''value can only be "none", "words", "sentences" or "allcharacters"'',
           TextInput_create)
   \<and> MultilineTextInput_set_autocapitalization_type (PyInt 1) MultilineTextInput_create
       = Inl (ValueError
           ''value can only be "none", "words", "sentences" or "allcharacters"'',
           MultilineTextInput_create)\<close>
  using set_autocapitalization_type_domain
      [of "PyStr ''Words''" TextInput_create MultilineTextInput_create]
    set_autocapitalization_type_domain
      [of "PyStr ''NONE''" TextInput_create MultilineTextInput_create]
    set_autocapitalization_type_domain
      [of "PyStr ''title''" TextInput_create MultilineTextInput_create]
    set_autocapitalization_type_domain
      [of "PyInt 1" TextInput_create MultilineTextInput_create]
  by (simp add: lower_examples)

text \<open>
  C5: on either adapter, for every boolean \<open>b\<close>, \<open>set_autocorrect\<close> returns and
  \<open>get_autocorrect\<close> then gives \<open>b\<close>, and the same for \<open>set_spellchecker\<close> and
  \<open>get_spellchecker\<close>; on an argument that is not a boolean both setters raise
  \<open>ValueError\<close> and leave the widget as it was.
\<close>

theorem autocorrect_spellchecker_roundtrip:
  "(\<exists>w'. TextInput_set_autocorrect (PyBool b) w = Inr w' \<and> TextInput_get_autocorrect w' = b)
   \<and> (\<exists>w'. TextInput_set_spellchecker (PyBool b) w = Inr w' \<and> TextInput_get_spellchecker w' = b)
   \<and> (\<exists>m'. MultilineTextInput_set_autocorrect (PyBool b) m = Inr m'
          \<and> MultilineTextInput_get_autocorrect m' = b)
   \<and> (\<exists>m'. MultilineTextInput_set_spellchecker (PyBool b) m = Inr m'
          \<and> MultilineTextInput_get_spellchecker m' = b)
   \<and> ((\<forall>c. v \<noteq> PyBool c) \<longrightarrow>
        TextInput_set_autocorrect v w = Inl (ValueError ''value can only be a boolean'', w)
        \<and> TextInput_set_spellchecker v w = Inl (ValueError ''value can only be a boolean'', w)
        \<and> MultilineTextInput_set_autocorrect v m
            = Inl (ValueError ''value can only be a boolean'', m)
        \<and> MultilineTextInput_set_spellchecker v m
            = Inl (ValueError ''value can only be a boolean'', m))"
proof -
  have ok: "(\<exists>w'. TextInput_set_autocorrect (PyBool b) w = Inr w' \<and> TextInput_get_autocorrect w' = b)"
    "(\<exists>w'. TextInput_set_spellchecker (PyBool b) w = Inr w' \<and> TextInput_get_spellchecker w' = b)"
    "(\<exists>m'. MultilineTextInput_set_autocorrect (PyBool b) m = Inr m'
          \<and> MultilineTextInput_get_autocorrect m' = b)"
    "(\<exists>m'. MultilineTextInput_set_spellchecker (PyBool b) m = Inr m'
          \<and> MultilineTextInput_get_spellchecker m' = b)"
    by (simp_all add: TextInput_set_autocorrect_def TextInput_get_autocorrect_def
        TextInput_set_spellchecker_def TextInput_get_spellchecker_def
        MultilineTextInput_set_autocorrect_def MultilineTextInput_get_autocorrect_def
        MultilineTextInput_set_spellchecker_def MultilineTextInput_get_spellchecker_def)
  have bad: "(\<forall>c. v \<noteq> PyBool c) \<longrightarrow>
        TextInput_set_autocorrect v w = Inl (ValueError ''value can only be a boolean'', w)
        \<and> TextInput_set_spellchecker v w = Inl (ValueError ''value can only be a boolean'', w)
        \<and> MultilineTextInput_set_autocorrect v m
            = Inl (ValueError ''value can only be a boolean'', m)
        \<and> MultilineTextInput_set_spellchecker v m
            = Inl (ValueError ''value can only be a boolean'', m)"
    by (cases v)
      (auto simp add: TextInput_set_autocorrect_def TextInput_set_spellchecker_def
        MultilineTextInput_set_autocorrect_def MultilineTextInput_set_spellchecker_def)
  from ok bad show ?thesis by blast
qed

theorem autocorrect_spellchecker_roundtrip_witness:
  "(\<exists>w'. TextInput_set_autocorrect (PyBool False) TextInput_create = Inr w'
        \<and> TextInput_get_autocorrect w' = False)
   \<and> (\<exists>m'. MultilineTextInput_set_spellchecker (PyBool False) MultilineTextInput_create = Inr m'
        \<and> MultilineTextInput_get_spellchecker m' = False)
   \<and> TextInput_set_autocorrect (PyInt 1) TextInput_create
       = Inl (ValueError ''value can only be a boolean'', TextInput_create)
   \<and> TextInput_set_spellchecker (PyInt 1) TextInput_create
       = Inl (ValueError ''value can only be a boolean'', TextInput_create)
   \<and> MultilineTextInput_set_autocorrect (PyInt 1) MultilineTextInput_create
       = Inl (ValueError ''value can only be a boolean'', MultilineTextInput_create)
   \<and> MultilineTextInput_set_spellchecker (PyInt 1) MultilineTextInput_create
       = Inl (ValueError ''value can only be a boolean'', MultilineTextInput_create)"
  using autocorrect_spellchecker_roundtrip
      [of False TextInput_create MultilineTextInput_create "PyInt 1"]
  by simp

section \<open>Properties of the multi-line adapter\<close>

text \<open>Each event keeps the placeholder's visibility equal to: no text and no focus.\<close>

lemma step_keeps_invariant:
  "placeholder_visible (step e w) = (text (native (step e w)) = [] \<and> \<not> has_focus (step e w))"
  by (cases e)
    (auto simp add: placeholder_visible_def gain_focus_def lose_focus_def
      textViewDidBeginEditing_def textViewDidEndEditing_def MultilineTextInput_set_value_def)

lemma run_keeps_invariant:
  "placeholder_visible w = (text (native w) = [] \<and> \<not> has_focus w) \<Longrightarrow>
   placeholder_visible (run es w) = (text (native (run es w)) = [] \<and> \<not> has_focus (run es w))"
proof (induction es arbitrary: w)
  case Nil
  then show ?case by simp
next
  case (Cons e es)
  show ?case
    unfolding run.simps by (rule Cons.IH) (rule step_keeps_invariant)
qed

lemma create_invariant:
  "placeholder_visible MultilineTextInput_create
   \<and> text (native MultilineTextInput_create) = [] \<and> \<not> has_focus MultilineTextInput_create"
  by (simp add: placeholder_visible_def MultilineTextInput_create_def)

text \<open>
  C1: on the multi-line adapter the placeholder is visible exactly when the text is empty
  and the view is not focused. It is visible after \<open>create\<close>; beginning to edit hides it;
  ending the edit shows it exactly when the text is empty; \<open>set_value\<close> shows it exactly
  when the new text is empty and \<open>has_focus\<close> is false; and the equality holds in the
  state reached from \<open>create\<close> by any sequence of these events.
\<close>

theorem placeholder_visibility:
  "placeholder_visible MultilineTextInput_create
   \<and> placeholder_visible (textViewDidBeginEditing w) = False
   \<and> placeholder_visible (textViewDidEndEditing w) = (text (native w) = [])
   \<and> placeholder_visible (MultilineTextInput_set_value v w) = (v = [] \<and> \<not> has_focus w)
   \<and> placeholder_visible (run es MultilineTextInput_create)
       = (text (native (run es MultilineTextInput_create)) = []
          \<and> \<not> has_focus (run es MultilineTextInput_create))"
proof -
  have a: "placeholder_visible MultilineTextInput_create"
    using create_invariant by simp
  have b: "placeholder_visible (textViewDidBeginEditing w) = False"
    by (simp add: placeholder_visible_def textViewDidBeginEditing_def)
  have c: "placeholder_visible (textViewDidEndEditing w) = (text (native w) = [])"
    by (simp add: placeholder_visible_def textViewDidEndEditing_def)
  have d: "placeholder_visible (MultilineTextInput_set_value v w) = (v = [] \<and> \<not> has_focus w)"
    by (auto simp add: placeholder_visible_def MultilineTextInput_set_value_def)
  have e: "placeholder_visible (run es MultilineTextInput_create)
       = (text (native (run es MultilineTextInput_create)) = []
          \<and> \<not> has_focus (run es MultilineTextInput_create))"
    by (rule run_keeps_invariant) (simp add: create_invariant)
  from a b c d e show ?thesis by blast
qed

theorem placeholder_visibility_witness:
  "placeholder_visible (run [BeginEditing] MultilineTextInput_create) = False
   \<and> placeholder_visible (run [BeginEditing, EndEditing] MultilineTextInput_create) = True
   \<and> placeholder_visible
        (run [BeginEditing, SetValue ''hi'', EndEditing] MultilineTextInput_create) = False
   \<and> placeholder_visible
        (run [BeginEditing, SetValue ''hi'', EndEditing, SetValue []] MultilineTextInput_create)
       = True
   \<and> placeholder_visible (run [BeginEditing, SetValue []] MultilineTextInput_create) = False"
  using placeholder_visibility [of _ _ "[BeginEditing]"]
    placeholder_visibility [of _ _ "[BeginEditing, EndEditing]"]
    placeholder_visibility [of _ _ "[BeginEditing, SetValue ''hi'', EndEditing]"]
    placeholder_visibility [of _ _ "[BeginEditing, SetValue ''hi'', EndEditing, SetValue []]"]
    placeholder_visibility [of _ _ "[BeginEditing, SetValue []]"]
  by (simp add: gain_focus_def lose_focus_def textViewDidBeginEditing_def
      textViewDidEndEditing_def MultilineTextInput_set_value_def MultilineTextInput_create_def)







text \<open>
  C10: on the multi-line adapter, \<open>get_placeholder\<close> is \<open>str\<close> of the placeholder label's
  text and nothing more. Right after \<open>create\<close> the label has no text, so the getter
  returns the four letters \<open>None\<close>, where the single-line adapter returns the empty string.
\<close>

theorem get_placeholder_after_create:
  "MultilineTextInput_get_placeholder w = py_str (label_text (placeholder_label w))
   \<and> MultilineTextInput_get_placeholder MultilineTextInput_create = ''None''
   \<and> TextInput_get_placeholder TextInput_create = []"
  by (simp add: MultilineTextInput_get_placeholder_def MultilineTextInput_create_def
      TextInput_get_placeholder_def TextInput_create_def py_str_def truthy_def)

end
